theory Spec2Isabelle
  imports Complex_Main "HOL-Library.AList"
begin

section \<open>JavaScript values handled by the price server\<close>

text \<open>
  A JavaScript Number is NaN, an infinity or a finite value. Finite values are kept as
  exact rationals: rounding to binary64 is not modelled, and no statement below rests on
  a rounded digit. Signed zero is the single value \<open>Fin 0\<close> (both zeros are falsy and
  neither is greater than zero).
\<close>

datatype jsnum = NaN | NegInf | Fin rat | PosInf

text \<open>\<^verbatim>\<open>x > 0\<close> on a Number.\<close>

definition gt_zero :: "jsnum \<Rightarrow> bool" where
  "gt_zero x = (case x of NaN \<Rightarrow> False | NegInf \<Rightarrow> False | Fin r \<Rightarrow> 0 < r | PosInf \<Rightarrow> True)"

text \<open>Truthiness of a Number: NaN and zero are falsy.\<close>

definition truthy_num :: "jsnum \<Rightarrow> bool" where
  "truthy_num x = (case x of NaN \<Rightarrow> False | NegInf \<Rightarrow> True | Fin r \<Rightarrow> r \<noteq> 0 | PosInf \<Rightarrow> True)"

text \<open>\<^verbatim>\<open>x || 0\<close> where \<open>x\<close> is a Number or a missing property (\<open>None\<close>).\<close>

definition or_zero :: "jsnum option \<Rightarrow> jsnum" where
  "or_zero x = (case x of None \<Rightarrow> Fin 0 | Some n \<Rightarrow> if truthy_num n then n else Fin 0)"

subsection \<open>String.prototype.toUpperCase\<close>

text \<open>
  Strings are sequences of 8-bit characters; \<open>toUpperCase\<close> maps the letters a to z to
  A to Z and leaves every other character alone. The Unicode case tables that JavaScript
  applies to characters outside ASCII are not modelled.
\<close>

definition upper_char :: "char \<Rightarrow> char" where
  "upper_char c =
     (let n = (of_char c :: nat) in if 97 \<le> n \<and> n \<le> 122 then char_of (n - 32) else c)"

definition toUpperCase :: "string \<Rightarrow> string" where
  "toUpperCase s = map upper_char s"

subsection \<open>parseFloat on a string\<close>

text \<open>
  \<open>parseFloat\<close> skips leading white space and reads the longest prefix that is a
  StrDecimalLiteral: an optional sign, then \<open>Infinity\<close> or decimal digits with an
  optional fraction and an optional exponent. With no such prefix the result is NaN.
\<close>

definition is_digit :: "char \<Rightarrow> bool" where
  "is_digit c = (48 \<le> (of_char c :: nat) \<and> (of_char c :: nat) \<le> 57)"

definition is_whitespace :: "char \<Rightarrow> bool" where
  "is_whitespace c = ((of_char c :: nat) \<in> {9, 10, 11, 12, 13, 32})"

definition digit_value :: "char \<Rightarrow> nat" where
  "digit_value c = (of_char c :: nat) - 48"

definition decimal_value :: "string \<Rightarrow> nat" where
  "decimal_value ds = foldl (\<lambda>acc c. 10 * acc + digit_value c) 0 ds"

definition scale10 :: "rat \<Rightarrow> int \<Rightarrow> rat" where
  "scale10 m e = (if 0 \<le> e then m * 10 ^ nat e else m / 10 ^ nat (- e))"

text \<open>
  The exponent part is read only when it is complete (\<open>e\<close>, an optional sign and at
  least one digit); otherwise the literal ends before the \<open>e\<close>.
\<close>

definition exponent_part :: "string \<Rightarrow> int" where
  "exponent_part s =
     (case s of
        [] \<Rightarrow> 0
      | c # r \<Rightarrow>
          if c = CHR ''e'' \<or> c = CHR ''E'' then
            (case r of
               [] \<Rightarrow> 0
             | d # r' \<Rightarrow>
                 if d = CHR ''-'' then - int (decimal_value (takeWhile is_digit r'))
                 else if d = CHR ''+'' then int (decimal_value (takeWhile is_digit r'))
                 else int (decimal_value (takeWhile is_digit r)))
          else 0)"

definition unsigned_literal :: "string \<Rightarrow> jsnum" where
  "unsigned_literal s =
     (if take 8 s = ''Infinity'' then PosInf
      else
        let ip = takeWhile is_digit s; r1 = dropWhile is_digit s in
        if r1 \<noteq> [] \<and> hd r1 = CHR ''.'' then
          (let fp = takeWhile is_digit (tl r1); r2 = dropWhile is_digit (tl r1) in
           if ip = [] \<and> fp = [] then NaN
           else Fin (scale10 (of_nat (decimal_value (ip @ fp)))
                             (exponent_part r2 - int (length fp))))
        else if ip = [] then NaN
        else Fin (scale10 (of_nat (decimal_value ip)) (exponent_part r1)))"

definition negate :: "jsnum \<Rightarrow> jsnum" where
  "negate x = (case x of NaN \<Rightarrow> NaN | NegInf \<Rightarrow> PosInf | Fin r \<Rightarrow> Fin (- r) | PosInf \<Rightarrow> NegInf)"

definition parseFloat :: "string \<Rightarrow> jsnum" where
  "parseFloat s =
     (let t = dropWhile is_whitespace s in
      case t of
        [] \<Rightarrow> NaN
      | c # r \<Rightarrow>
          if c = CHR ''-'' then negate (unsigned_literal r)
          else if c = CHR ''+'' then unsigned_literal r
          else unsigned_literal t)"

subsection \<open>Objects with string keys\<close>

text \<open>
  An object is an association list in insertion order, which is the order
  \<open>Object.keys\<close> reports for keys that are not array indices (every symbol the server
  writes is such a key). Writing a property replaces the value of an existing key in
  place and appends a new key (\<open>AList.update\<close>).
\<close>

type_synonym 'v obj = "(string \<times> 'v) list"

definition Object_keys :: "'v obj \<Rightarrow> string list" where
  "Object_keys o1 = map fst o1"

text \<open>
  \<open>Object.assign(target, source)\<close>: for each own key of the source, in order, read the
  source's value for that key and write it to the target.
\<close>

definition Object_assign :: "'v obj \<Rightarrow> 'v obj \<Rightarrow> 'v obj" where
  "Object_assign target src =
     fold (\<lambda>k t. case map_of src k of None \<Rightarrow> t | Some v \<Rightarrow> AList.update k v t)
          (Object_keys src) target"

section \<open>The price cache\<close>

record PriceRecord =
  price :: jsnum
  change24h :: jsnum
  source :: string
  updatedAt :: int

type_synonym Snapshot = "PriceRecord obj"

record CacheState =
  data :: Snapshot
  lastUpdate :: "int option"
  isUpdating :: bool

definition priceCache :: CacheState where
  "priceCache = \<lparr>data = [], lastUpdate = None, isUpdating = False\<rparr>"

definition STABLECOINS :: "string list" where
  "STABLECOINS = [''USDT'', ''USDC'', ''BUSD'', ''DAI'']"

definition COINGECKO_IDS :: "string obj" where
  "COINGECKO_IDS =
     [(''BTC'', ''bitcoin''), (''ETH'', ''ethereum''), (''BNB'', ''binancecoin''),
      (''SOL'', ''solana'')]"


section \<open>Price source adapters\<close>

text \<open>
  What \<open>fetch\<close> delivered: the call itself rejected (network error, or the 4000 ms
  abort signal fired) with a message, or a response arrived with a status code and a
  body. The body is \<open>None\<close> when \<open>response.json()\<close> rejects or yields \<open>null\<close>, on
  which the property access that follows throws; both end in the adapter's \<open>catch\<close>.
\<close>

datatype 'p fetched = FetchRejected string | Response nat "'p option"

text \<open>\<open>response.ok\<close>: the status is in the range 200 to 299.\<close>

definition response_ok :: "nat \<Rightarrow> bool" where
  "response_ok status = (200 \<le> status \<and> status \<le> 299)"

subsection \<open>CoinGecko (batch)\<close>

text \<open>
  The parsed payload maps a CoinGecko id to a quote object; its fields are Numbers, as
  the provider documents them, and either may be missing.
\<close>

record cg_quote =
  usd :: "jsnum option"
  usd_24h_change :: "jsnum option"

type_synonym cg_payload = "string \<rightharpoonup> cg_quote"

text \<open>
  \<open>now symbol\<close> is the reading of \<open>Date.now()\<close> taken when the entry of \<open>symbol\<close> is
  built. The guard \<open>data[id] && data[id].usd > 0\<close> fails for a missing quote, a missing
  \<open>usd\<close> (\<open>undefined > 0\<close> is false) and a Number that is not greater than zero.
\<close>

definition fetchCoinGeckoPrices :: "(string \<Rightarrow> int) \<Rightarrow> cg_payload fetched \<Rightarrow> Snapshot" where
  "fetchCoinGeckoPrices now r =
     (case r of
        FetchRejected msg \<Rightarrow> []
      | Response status body \<Rightarrow>
          if \<not> response_ok status then []
          else
            (case body of
               None \<Rightarrow> []
             | Some d \<Rightarrow>
                 fold (\<lambda>(symbol, id) prices.
                         case d id of
                           None \<Rightarrow> prices
                         | Some q \<Rightarrow>
                             (case usd q of
                                None \<Rightarrow> prices
                              | Some p \<Rightarrow>
                                  if gt_zero p then
                                    AList.update symbol
                                      \<lparr>price = p, change24h = or_zero (usd_24h_change q),
                                       source = ''coingecko'', updatedAt = now symbol\<rparr>
                                      prices
                                  else prices))
                      COINGECKO_IDS []))"

subsection \<open>DexScreener (single pair)\<close>

text \<open>
  The parsed payload, typed as the provider documents it: \<open>pair\<close> is an object or
  \<open>null\<close>, \<open>priceUsd\<close> a string, \<open>priceChange.h24\<close> a Number; each may be missing.
\<close>

record dex_priceChange =
  h24 :: "jsnum option"

record dex_pair =
  priceUsd :: "string option"
  priceChange :: "dex_priceChange option"

record dex_payload =
  pair :: "dex_pair option"

text \<open>
  \<open>data.pair.priceChange?.h24 || 0\<close> is a Number; \<open>parseFloat\<close> first turns it into
  its decimal string, which reads back as the same Number.
\<close>

definition change_h24 :: "dex_pair \<Rightarrow> jsnum" where
  "change_h24 p = (case priceChange p of None \<Rightarrow> Fin 0 | Some pc \<Rightarrow> or_zero (h24 pc))"

text \<open>
  The guard \<open>data.pair && data.pair.priceUsd\<close> tests truthiness only: a missing pair, a
  missing \<open>priceUsd\<close> and the empty string are falsy, every other string is truthy. The
  result is \<open>null\<close> (\<open>None\<close>) or an object with the single key \<open>ORBE\<close>.
\<close>

definition fetchOrbePrice :: "int \<Rightarrow> dex_payload fetched \<Rightarrow> Snapshot option" where
  "fetchOrbePrice now r =
     (case r of
        FetchRejected msg \<Rightarrow> None
      | Response status body \<Rightarrow>
          if \<not> response_ok status then None
          else
            (case body of
               None \<Rightarrow> None
             | Some d \<Rightarrow>
                 (case pair d of
                    None \<Rightarrow> None
                  | Some p \<Rightarrow>
                      (case priceUsd p of
                         None \<Rightarrow> None
                       | Some s \<Rightarrow>
                           if s = [] then None
                           else
                             Some [(''ORBE'',
                                    \<lparr>price = parseFloat s, change24h = change_h24 p,
                                     source = ''dexscreener'', updatedAt = now\<rparr>)]))))"

section \<open>Cache refresher\<close>

text \<open>The fixed provider: the \<open>forEach\<close> over \<open>STABLECOINS\<close> writing into \<open>newData\<close>.\<close>

definition stablecoinEntries :: "(string \<Rightarrow> int) \<Rightarrow> Snapshot \<Rightarrow> Snapshot" where
  "stablecoinEntries now newData =
     fold (\<lambda>token nd.
             AList.update token
               \<lparr>price = Fin 1, change24h = Fin 0, source = ''fixed'', updatedAt = now token\<rparr> nd)
          STABLECOINS newData"

text \<open>
  A promise settles by fulfilling with a value or rejecting with an error.
  \<open>Promise.all\<close> over the two adapter promises fulfils with both values in argument
  order once both have fulfilled, and rejects with the reason of the promise that
  rejected first; \<open>arrival\<close> says which of the two network calls settled first.
\<close>

datatype 'a settled = Fulfilled 'a | Rejected string

datatype arrival = BatchFirst | PairFirst

definition Promise_all :: "arrival \<Rightarrow> 'a settled \<Rightarrow> 'b settled \<Rightarrow> string + ('a \<times> 'b)" where
  "Promise_all first p1 p2 =
     (case (p1, p2) of
        (Fulfilled a, Fulfilled b) \<Rightarrow> Inr (a, b)
      | (Rejected e, Fulfilled b) \<Rightarrow> Inl e
      | (Fulfilled a, Rejected e) \<Rightarrow> Inl e
      | (Rejected e1, Rejected e2) \<Rightarrow> Inl (case first of BatchFirst \<Rightarrow> e1 | PairFirst \<Rightarrow> e2))"

text \<open>How a call of an async function ends.\<close>

datatype completion = Returned | Threw string

text \<open>
  \<open>updatePriceCache\<close> up to its \<open>await\<close>: the guard, the flag, and \<open>newData\<close> filled by
  the fixed provider. The second component is \<open>None\<close> when the guard returned, and
  otherwise the \<open>newData\<close> the suspended call holds.
\<close>

definition updatePriceCache_begin ::
  "(string \<Rightarrow> int) \<Rightarrow> CacheState \<Rightarrow> CacheState \<times> Snapshot option" where
  "updatePriceCache_begin nowFixed st =
     (if isUpdating st then (st, None)
      else (st\<lparr>isUpdating := True\<rparr>, Some (stablecoinEntries nowFixed [])))"

text \<open>
  \<open>updatePriceCache\<close> from its \<open>await\<close> on. The \<open>try\<close> block either throws at the
  \<open>await\<close>, before any write to the cache, or merges and publishes; the \<open>catch\<close> clause
  only logs; the \<open>finally\<close> clause clears the flag. \<open>nowDone\<close> is the reading of
  \<open>Date.now()\<close> stored in \<open>lastUpdate\<close>.
\<close>

definition updatePriceCache_resume ::
  "int \<Rightarrow> arrival \<Rightarrow> Snapshot settled \<Rightarrow> Snapshot option settled \<Rightarrow> Snapshot \<Rightarrow> CacheState
     \<Rightarrow> completion \<times> CacheState" where
  "updatePriceCache_resume nowDone first p1 p2 newData st =
     (let tried =
            (case Promise_all first p1 p2 of
               Inl err \<Rightarrow> Inl (err, st)
             | Inr (coinGeckoData, orbeData) \<Rightarrow>
                 (let merged1 = Object_assign newData coinGeckoData;
                      merged2 = (case orbeData of
                                   None \<Rightarrow> merged1
                                 | Some od \<Rightarrow> Object_assign merged1 od)
                  in Inr (st\<lparr>data := merged2, lastUpdate := Some nowDone\<rparr>)));
          caught = (case tried of Inl (err, st') \<Rightarrow> st' | Inr st' \<Rightarrow> st')
      in (Returned, caught\<lparr>isUpdating := False\<rparr>))"

text \<open>One whole call, given how the two adapter promises settle.\<close>

definition updatePriceCache_with ::
  "(string \<Rightarrow> int) \<Rightarrow> int \<Rightarrow> arrival \<Rightarrow> Snapshot settled \<Rightarrow> Snapshot option settled \<Rightarrow> CacheState
     \<Rightarrow> completion \<times> CacheState" where
  "updatePriceCache_with nowFixed nowDone first p1 p2 st =
     (case updatePriceCache_begin nowFixed st of
        (st1, None) \<Rightarrow> (Returned, st1)
      | (st1, Some newData) \<Rightarrow> updatePriceCache_resume nowDone first p1 p2 newData st1)"

text \<open>
  One whole call with the server's own adapters, which catch every failure and so
  always fulfil. The environment supplies what the two \<open>fetch\<close> calls deliver, which of
  them settles first, and the readings of the clock.
\<close>

record refresh_env =
  env_nowFixed :: "string \<Rightarrow> int"
  env_coinGeckoHttp :: "cg_payload fetched"
  env_nowCoinGecko :: "string \<Rightarrow> int"
  env_dexScreenerHttp :: "dex_payload fetched"
  env_nowOrbe :: int
  env_settledFirst :: arrival
  env_nowDone :: int

definition updatePriceCache :: "refresh_env \<Rightarrow> CacheState \<Rightarrow> completion \<times> CacheState" where
  "updatePriceCache env st =
     updatePriceCache_with (env_nowFixed env) (env_nowDone env) (env_settledFirst env)
       (Fulfilled (fetchCoinGeckoPrices (env_nowCoinGecko env) (env_coinGeckoHttp env)))
       (Fulfilled (fetchOrbePrice (env_nowOrbe env) (env_dexScreenerHttp env))) st"

section \<open>Query interface\<close>

text \<open>\<open>GET /api/prices\<close>; \<open>now\<close> is the reading of \<open>Date.now()\<close> in the handler.\<close>

record prices_meta =
  meta_lastUpdate :: "int option"
  meta_cacheAge :: "int option"
  meta_tokensCount :: nat
  meta_isUpdating :: bool

record prices_response =
  resp_success :: bool
  resp_data :: Snapshot
  resp_meta :: prices_meta

text \<open>
  \<open>priceCache.lastUpdate ? Date.now() - priceCache.lastUpdate : null\<close>: the condition
  is falsy for \<open>null\<close> and for the Number 0.
\<close>

definition getAll :: "int \<Rightarrow> CacheState \<Rightarrow> prices_response" where
  "getAll now st =
     (let cacheAge = (case lastUpdate st of
                        None \<Rightarrow> None
                      | Some t \<Rightarrow> if t \<noteq> 0 then Some (now - t) else None)
      in \<lparr>resp_success = True, resp_data = data st,
          resp_meta = \<lparr>meta_lastUpdate = lastUpdate st, meta_cacheAge = cacheAge,
                       meta_tokensCount = length (Object_keys (data st)),
                       meta_isUpdating = isUpdating st\<rparr>\<rparr>)"

text \<open>
  \<open>GET /api/prices/:token\<close>. A price record is an object and so truthy: \<open>!price\<close>
  holds exactly when the key is missing. In the found branch \<open>Date.now() -
  priceCache.lastUpdate\<close> has no guard; \<open>null\<close> converts to 0 there.
\<close>

datatype token_response =
    NotFound (resp_error: string) (availableTokens: "string list")
  | Found (resp_token: string) (resp_record: PriceRecord)
          (found_lastUpdate: "int option") (found_cacheAge: int)

definition status_code :: "token_response \<Rightarrow> nat" where
  "status_code r = (case r of NotFound e ks \<Rightarrow> 404 | Found t p l a \<Rightarrow> 200)"

definition getOne :: "string \<Rightarrow> int \<Rightarrow> CacheState \<Rightarrow> token_response" where
  "getOne param now st =
     (let token = toUpperCase param in
      case map_of (data st) token of
        None \<Rightarrow> NotFound (''Token '' @ token @ '' not found'') (Object_keys (data st))
      | Some p \<Rightarrow>
          Found token p (lastUpdate st)
                (now - (case lastUpdate st of None \<Rightarrow> 0 | Some t \<Rightarrow> t)))"

section \<open>The server as a sequence of events\<close>

text \<open>
  The handlers run to completion one at a time; \<open>updatePriceCache\<close> is the only one
  that suspends. An event is either a call of \<open>updatePriceCache\<close> (by the timer or by
  \<open>POST /api/prices/refresh\<close>) running up to its \<open>await\<close>, or the adapter promises of
  the oldest suspended call settling and that call running to its end. The read
  handlers change nothing and are functions of the cache state.
\<close>

datatype event =
    Call "string \<Rightarrow> int"
  | Settle int arrival "Snapshot settled" "Snapshot option settled"

record server =
  cache :: CacheState
  suspended :: "Snapshot list"

fun step :: "event \<Rightarrow> server \<Rightarrow> server" where
  "step (Call nowFixed) s =
     (case updatePriceCache_begin nowFixed (cache s) of
        (c, None) \<Rightarrow> s\<lparr>cache := c\<rparr>
      | (c, Some newData) \<Rightarrow> \<lparr>cache = c, suspended = suspended s @ [newData]\<rparr>)"
| "step (Settle nowDone first p1 p2) s =
     (case suspended s of
        [] \<Rightarrow> s
      | newData # rest \<Rightarrow>
          \<lparr>cache = snd (updatePriceCache_resume nowDone first p1 p2 newData (cache s)),
           suspended = rest\<rparr>)"

definition server_start :: server where
  "server_start = \<lparr>cache = priceCache, suspended = []\<rparr>"

definition run :: "event list \<Rightarrow> server" where
  "run evs = fold step evs server_start"

section \<open>The invariant of the cache\<close>

text \<open>A snapshot with entries comes with the time of the refresh that published it.\<close>

definition cache_inv :: "CacheState \<Rightarrow> bool" where
  "cache_inv st = (data st \<noteq> [] \<longrightarrow> lastUpdate st \<noteq> None)"

text \<open>
  \<open>Date.now()\<close> counts the milliseconds since the start of 1970, so every reading
  taken by a running server is greater than zero. Of the readings in an event, the one
  stored in \<open>lastUpdate\<close> is the one that the read handlers compute with.
\<close>

fun clock_after_epoch :: "event \<Rightarrow> bool" where
  "clock_after_epoch (Call nowFixed) = True"
| "clock_after_epoch (Settle nowDone first p1 p2) = (0 < nowDone)"

section \<open>Example inputs\<close>

definition example_cache :: CacheState where
  "example_cache =
     \<lparr>data = [(''USDT'', \<lparr>price = Fin 1, change24h = Fin 0, source = ''fixed'',
                          updatedAt = 1000\<rparr>),
              (''BTC'', \<lparr>price = Fin 50000, change24h = Fin (5 / 2), source = ''coingecko'',
                         updatedAt = 1001\<rparr>)],
      lastUpdate = Some 1002, isUpdating = False\<rparr>"

definition busy_cache :: CacheState where
  "busy_cache = example_cache\<lparr>isUpdating := True\<rparr>"

definition failing_env :: refresh_env where
  "failing_env =
     \<lparr>env_nowFixed = (\<lambda>token. 5000),
      env_coinGeckoHttp = FetchRejected ''The operation was aborted due to timeout'',
      env_nowCoinGecko = (\<lambda>symbol. 5001),
      env_dexScreenerHttp = Response 500 None,
      env_nowOrbe = 5002,
      env_settledFirst = PairFirst,
      env_nowDone = 5003\<rparr>"

definition orbe_only_env :: refresh_env where
  "orbe_only_env =
     \<lparr>env_nowFixed = (\<lambda>token. 5000),
      env_coinGeckoHttp = FetchRejected ''The operation was aborted due to timeout'',
      env_nowCoinGecko = (\<lambda>symbol. 5001),
      env_dexScreenerHttp =
        Response 200 (Some \<lparr>pair = Some \<lparr>priceUsd = Some ''0.0012'',
                                         priceChange = Some \<lparr>h24 = Some (Fin (- 6 / 5))\<rparr>\<rparr>\<rparr>),
      env_nowOrbe = 5002,
      env_settledFirst = PairFirst,
      env_nowDone = 5003\<rparr>"

definition colliding_batch :: Snapshot where
  "colliding_batch =
     [(''BTC'', \<lparr>price = Fin 50000, change24h = Fin (5 / 2), source = ''coingecko'', updatedAt = 5001\<rparr>),
      (''ORBE'', \<lparr>price = Fin 7, change24h = Fin 0, source = ''coingecko'', updatedAt = 5001\<rparr>)]"

definition colliding_pair :: Snapshot where
  "colliding_pair =
     [(''ORBE'', \<lparr>price = Fin (12 / 10000), change24h = Fin (- 6 / 5), source = ''dexscreener'',
                 updatedAt = 5002\<rparr>)]"

definition first_refresh :: "event list" where
  "first_refresh = [Call (\<lambda>token. 5000), Settle 5003 BatchFirst (Fulfilled []) (Fulfilled None)]"

section \<open>Facts about the JavaScript operations\<close>

lemma upper_char_idem: "upper_char (upper_char c) = upper_char c"
proof (cases "97 \<le> (of_char c :: nat) \<and> (of_char c :: nat) \<le> 122")
  case True
  then have e: "upper_char c = char_of (of_char c - 32 :: nat)"
    by (simp add: upper_char_def Let_def)
  from True have "(of_char c - 32 :: nat) < 256" by arith
  then have "(of_char c - 32 :: nat) mod 256 = of_char c - 32" by (rule mod_less)
  then have "(of_char (char_of (of_char c - 32 :: nat)) :: nat) = of_char c - 32"
    by simp
  moreover from True have "\<not> 97 \<le> (of_char c - 32 :: nat)" by arith
  ultimately have "upper_char (char_of (of_char c - 32 :: nat)) = char_of (of_char c - 32 :: nat)"
    by (simp add: upper_char_def Let_def)
  with e show ?thesis by simp
next
  case False
  then have "upper_char c = c" by (auto simp: upper_char_def Let_def)
  then show ?thesis by simp
qed

lemma toUpperCase_idem: "toUpperCase (toUpperCase s) = toUpperCase s"
  by (simp add: toUpperCase_def upper_char_idem)

text \<open>Assigning reads like map override: the source's bindings win.\<close>

lemma assign_fold:
  "map_of (fold (\<lambda>k t. case map_of src k of None \<Rightarrow> t | Some v \<Rightarrow> AList.update k v t) ks target)
     = map_of target ++ (map_of src |` set ks)"
proof (induction ks arbitrary: target)
  case Nil
  then show ?case by simp
next
  case (Cons k ks)
  show ?case
  proof (cases "map_of src k")
    case None
    then have "map_of src |` set (k # ks) = map_of src |` set ks"
      by (auto simp: restrict_map_def fun_eq_iff)
    with None Cons show ?thesis by simp
  next
    case (Some v)
    have "(map_of target)(k \<mapsto> v) ++ (map_of src |` set ks)
            = map_of target ++ (map_of src |` set (k # ks))"
      using Some by (auto simp: map_add_def restrict_map_def fun_eq_iff split: option.splits)
    moreover have
      "fold (\<lambda>k t. case map_of src k of None \<Rightarrow> t | Some v \<Rightarrow> AList.update k v t) (k # ks) target
         = fold (\<lambda>k t. case map_of src k of None \<Rightarrow> t | Some v \<Rightarrow> AList.update k v t) ks
             (AList.update k v target)"
      using Some by simp
    moreover have "map_of (AList.update k v target) = (map_of target)(k \<mapsto> v)"
      by (rule update_conv')
    ultimately show ?thesis
      using Cons.IH [of "AList.update k v target"] by (simp only:)
  qed
qed

lemma map_of_Object_assign: "map_of (Object_assign target src) = map_of target ++ map_of src"
proof -
  have "(map_of src |` set (map fst src)) x = map_of src x" for x
    using map_of_eq_None_iff [of src x] by (auto simp: restrict_map_def)
  then have "map_of src |` set (map fst src) = map_of src"
    by (rule ext)
  then show ?thesis by (simp add: Object_assign_def Object_keys_def assign_fold)
qed

lemma Object_assign_Nil: "Object_assign target [] = target"
  by (simp add: Object_assign_def Object_keys_def)

lemma stablecoinEntries_Nil:
  "stablecoinEntries now [] =
     [(''USDT'', \<lparr>price = Fin 1, change24h = Fin 0, source = ''fixed'', updatedAt = now ''USDT''\<rparr>),
      (''USDC'', \<lparr>price = Fin 1, change24h = Fin 0, source = ''fixed'', updatedAt = now ''USDC''\<rparr>),
      (''BUSD'', \<lparr>price = Fin 1, change24h = Fin 0, source = ''fixed'', updatedAt = now ''BUSD''\<rparr>),
      (''DAI'', \<lparr>price = Fin 1, change24h = Fin 0, source = ''fixed'', updatedAt = now ''DAI''\<rparr>)]"
  by (simp add: stablecoinEntries_def STABLECOINS_def)

section \<open>Adapters: properties\<close>

text \<open>Every failure of the batch call degrades to the empty object.\<close>

lemma fetchCoinGeckoPrices_rejected: "fetchCoinGeckoPrices now (FetchRejected msg) = []"
  by (simp add: fetchCoinGeckoPrices_def)

lemma fetchCoinGeckoPrices_not_ok:
  "\<not> response_ok status \<Longrightarrow> fetchCoinGeckoPrices now (Response status body) = []"
  by (simp add: fetchCoinGeckoPrices_def)

lemma fetchCoinGeckoPrices_no_body: "fetchCoinGeckoPrices now (Response status None) = []"
  by (simp add: fetchCoinGeckoPrices_def)

text \<open>Every failure of the single-pair call degrades to \<open>null\<close>.\<close>

lemma fetchOrbePrice_rejected: "fetchOrbePrice now (FetchRejected msg) = None"
  by (simp add: fetchOrbePrice_def)

lemma fetchOrbePrice_not_ok:
  "\<not> response_ok status \<Longrightarrow> fetchOrbePrice now (Response status body) = None"
  by (simp add: fetchOrbePrice_def)

lemma fetchOrbePrice_no_body: "fetchOrbePrice now (Response status None) = None"
  by (simp add: fetchOrbePrice_def)

text \<open>A result of the single-pair adapter has the one key \<open>ORBE\<close>.\<close>

lemma fetchOrbePrice_Some:
  "fetchOrbePrice now r = Some od \<Longrightarrow> \<exists>p. od = [(''ORBE'', p)]"
  by (auto simp: fetchOrbePrice_def split: fetched.splits if_splits option.splits)

text \<open>
  The batch adapter keeps its guard \<open>usd > 0\<close> through the loop: every entry it returns
  has a price greater than zero.
\<close>

lemma coinGecko_fold_positive:
  assumes "\<forall>k p. map_of acc k = Some p \<longrightarrow> gt_zero (price p)"
  shows "\<forall>k p. map_of (fold (\<lambda>(symbol, id) prices.
                         case d id of
                           None \<Rightarrow> prices
                         | Some q \<Rightarrow>
                             (case usd q of
                                None \<Rightarrow> prices
                              | Some p \<Rightarrow>
                                  if gt_zero p then
                                    AList.update symbol
                                      \<lparr>price = p, change24h = or_zero (usd_24h_change q),
                                       source = ''coingecko'', updatedAt = now symbol\<rparr>
                                      prices
                                  else prices)) ids acc) k = Some p \<longrightarrow> gt_zero (price p)"
  using assms
proof (induction ids arbitrary: acc)
  case Nil
  then show ?case by simp
next
  case (Cons x ids)
  obtain symbol id where x: "x = (symbol, id)" by (cases x)
  show ?case
    unfolding x fold_Cons comp_apply
    by (rule Cons.IH) (use Cons.prems in \<open>auto simp: update_conv' split: option.splits\<close>)
qed

lemma fetchCoinGeckoPrices_positive:
  "map_of (fetchCoinGeckoPrices now r) symbol = Some p \<Longrightarrow> gt_zero (price p)"
proof (cases r)
  case (FetchRejected msg)
  then show "map_of (fetchCoinGeckoPrices now r) symbol = Some p \<Longrightarrow> gt_zero (price p)"
    by (simp add: fetchCoinGeckoPrices_def)
next
  case (Response status body)
  show "map_of (fetchCoinGeckoPrices now r) symbol = Some p \<Longrightarrow> gt_zero (price p)"
  proof (cases "response_ok status \<and> body \<noteq> None")
    case False
    assume "map_of (fetchCoinGeckoPrices now r) symbol = Some p"
    with False Response show ?thesis
      by (auto simp: fetchCoinGeckoPrices_def split: if_splits option.splits)
  next
    case True
    then obtain d where d: "body = Some d" by auto
    assume "map_of (fetchCoinGeckoPrices now r) symbol = Some p"
    with True Response d
      coinGecko_fold_positive [where acc = "[]" and d = d and now = now and ids = COINGECKO_IDS]
    show ?thesis
      by (simp add: fetchCoinGeckoPrices_def)
  qed
qed

text \<open>
  C1. The claim is that an adapter includes a symbol only if its price is a valid positive
  number, and that \<open>fetchOrbePrice\<close> yields no \<open>ORBE\<close> entry when \<open>priceUsd\<close> does not
  parse to one. \<open>fetchOrbePrice\<close> tests only that the raw \<open>priceUsd\<close> string is truthy,
  before parsing it: on a 200 response whose \<open>priceUsd\<close> is \<open>-1\<close>, \<open>0\<close> or \<open>N/A\<close> it
  returns an \<open>ORBE\<close> entry whose price is negative, zero or NaN.
\<close>

theorem fetchOrbePrice_unchecked_price:
  "fetchOrbePrice 5002
     (Response 200 (Some \<lparr>pair = Some \<lparr>priceUsd = Some ''-1'', priceChange = None\<rparr>\<rparr>))
     = Some [(''ORBE'', \<lparr>price = Fin (- 1), change24h = Fin 0, source = ''dexscreener'',
                         updatedAt = 5002\<rparr>)]
   \<and> fetchOrbePrice 5002
     (Response 200 (Some \<lparr>pair = Some \<lparr>priceUsd = Some ''0'', priceChange = None\<rparr>\<rparr>))
     = Some [(''ORBE'', \<lparr>price = Fin 0, change24h = Fin 0, source = ''dexscreener'',
                         updatedAt = 5002\<rparr>)]
   \<and> fetchOrbePrice 5002
     (Response 200 (Some \<lparr>pair = Some \<lparr>priceUsd = Some ''N/A'', priceChange = None\<rparr>\<rparr>))
     = Some [(''ORBE'', \<lparr>price = NaN, change24h = Fin 0, source = ''dexscreener'',
                         updatedAt = 5002\<rparr>)]"
proof -
  have a: "parseFloat ''-1'' = Fin (- 1)"
    by (simp add: parseFloat_def unsigned_literal_def negate_def is_digit_def is_whitespace_def
        decimal_value_def digit_value_def scale10_def exponent_part_def)
  have b: "parseFloat ''0'' = Fin 0"
    by (simp add: parseFloat_def unsigned_literal_def is_digit_def is_whitespace_def
        decimal_value_def digit_value_def scale10_def exponent_part_def)
  have c: "parseFloat ''N/A'' = NaN"
    by (simp add: parseFloat_def unsigned_literal_def is_digit_def is_whitespace_def)
  show ?thesis
    by (simp add: fetchOrbePrice_def response_ok_def change_h24_def a b c)
qed

section \<open>Cache refresher: properties\<close>

lemma updatePriceCache_with_guard:
  "isUpdating st \<Longrightarrow> updatePriceCache_with nf nd first p1 p2 st = (Returned, st)"
  by (simp add: updatePriceCache_with_def updatePriceCache_begin_def)

text \<open>A rejection at the \<open>await\<close> is caught: the call returns and the cache is as before.\<close>

lemma updatePriceCache_with_rejected:
  "\<not> isUpdating st \<Longrightarrow> Promise_all first p1 p2 = Inl err \<Longrightarrow>
   updatePriceCache_with nf nd first p1 p2 st = (Returned, st)"
  by (simp add: updatePriceCache_with_def updatePriceCache_begin_def updatePriceCache_resume_def)

lemma updatePriceCache_with_fulfilled:
  "\<not> isUpdating st \<Longrightarrow>
   updatePriceCache_with nf nd first (Fulfilled cg) (Fulfilled ob) st =
     (Returned,
      st\<lparr>data := (case ob of
                    None \<Rightarrow> Object_assign (stablecoinEntries nf []) cg
                  | Some od \<Rightarrow> Object_assign (Object_assign (stablecoinEntries nf []) cg) od),
         lastUpdate := Some nd\<rparr>)"
  by (simp add: updatePriceCache_with_def updatePriceCache_begin_def updatePriceCache_resume_def
      Promise_all_def Let_def)

text \<open>Which promise settled first decides only which error the \<open>catch\<close> clause logs.\<close>

lemma updatePriceCache_resume_arrival:
  "updatePriceCache_resume nd BatchFirst p1 p2 newData st
     = updatePriceCache_resume nd PairFirst p1 p2 newData st"
  by (cases p1; cases p2) (simp_all add: updatePriceCache_resume_def Promise_all_def)

lemma updatePriceCache_with_arrival:
  "updatePriceCache_with nf nd BatchFirst p1 p2 st
     = updatePriceCache_with nf nd PairFirst p1 p2 st"
  by (simp add: updatePriceCache_with_def updatePriceCache_resume_arrival
      split: prod.splits option.splits)

lemma assign_ORBE:
  "Object_assign (stablecoinEntries nf []) [(''ORBE'', p)]
     = stablecoinEntries nf [] @ [(''ORBE'', p)]"
  by (simp add: stablecoinEntries_Nil Object_assign_def Object_keys_def)

text \<open>
  A whole call on an idle server is the event \<open>Call\<close> followed by the event \<open>Settle\<close>.
\<close>

lemma call_then_settle:
  "\<not> isUpdating st \<Longrightarrow>
   cache (step (Settle nd first p1 p2) (step (Call nf) \<lparr>cache = st, suspended = []\<rparr>))
     = snd (updatePriceCache_with nf nd first p1 p2 st)"
  by (simp add: updatePriceCache_with_def updatePriceCache_begin_def)

text \<open>
  C2. For every cache state with \<open>isUpdating = true\<close>, a call of \<open>updatePriceCache\<close>
  returns at the guard and leaves the cache state as it was, \<open>data\<close> and \<open>lastUpdate\<close>
  included: whatever the adapters would have delivered, and also as an event of the
  server while another call is suspended.
\<close>

theorem refresh_guard_noop:
  assumes "isUpdating st"
  shows "updatePriceCache env st = (Returned, st)
         \<and> updatePriceCache_with nf nd first p1 p2 st = (Returned, st)
         \<and> updatePriceCache_begin nf st = (st, None)
         \<and> step (Call nf) \<lparr>cache = st, suspended = q\<rparr> = \<lparr>cache = st, suspended = q\<rparr>"
  using assms
  by (simp add: updatePriceCache_def updatePriceCache_with_guard updatePriceCache_begin_def)

theorem refresh_guard_noop_witness:
  "isUpdating busy_cache
   \<and> updatePriceCache orbe_only_env busy_cache = (Returned, busy_cache)
   \<and> data (snd (updatePriceCache orbe_only_env busy_cache)) = data example_cache
   \<and> lastUpdate (snd (updatePriceCache orbe_only_env busy_cache)) = Some 1002"
proof -
  have h: "isUpdating busy_cache" by (simp add: busy_cache_def)
  show ?thesis
    using h refresh_guard_noop [OF h, of orbe_only_env]
    by (simp add: busy_cache_def example_cache_def)
qed

text \<open>
  C3. Every call of \<open>updatePriceCache\<close> that passes the guard ends with \<open>isUpdating =
  false\<close> and returns normally, however the two adapter promises settle: when both
  fulfil and when either rejects, so that the \<open>await\<close> throws inside the \<open>try\<close> block.
  The part of the call after the \<open>await\<close> clears the flag from any state.
\<close>

theorem refresh_clears_flag:
  assumes "\<not> isUpdating st"
  shows "\<not> isUpdating (snd (updatePriceCache_with nf nd first p1 p2 st))
         \<and> fst (updatePriceCache_with nf nd first p1 p2 st) = Returned
         \<and> \<not> isUpdating (snd (updatePriceCache env st))
         \<and> fst (updatePriceCache env st) = Returned
         \<and> \<not> isUpdating (snd (updatePriceCache_resume nd first p1 p2 newData st'))"
  using assms
  by (simp add: updatePriceCache_def updatePriceCache_with_def updatePriceCache_begin_def
      updatePriceCache_resume_def Let_def split: sum.splits prod.splits)

theorem refresh_clears_flag_witness:
  "\<not> isUpdating example_cache
   \<and> \<not> isUpdating (snd (updatePriceCache_with (\<lambda>token. 5000) 5003 BatchFirst
                          (Rejected ''adapter threw'') (Fulfilled None) example_cache))
   \<and> snd (updatePriceCache_with (\<lambda>token. 5000) 5003 BatchFirst
            (Rejected ''adapter threw'') (Fulfilled None) example_cache) = example_cache"
proof -
  have h: "\<not> isUpdating example_cache" by (simp add: example_cache_def)
  have r: "Promise_all BatchFirst (Rejected ''adapter threw'' :: Snapshot settled)
             (Fulfilled None :: Snapshot option settled) = Inl ''adapter threw''"
    by (simp add: Promise_all_def)
  show ?thesis
    using h refresh_clears_flag [OF h, of "\<lambda>token. 5000" 5003 BatchFirst
        "Rejected ''adapter threw''" "Fulfilled None"]
      updatePriceCache_with_rejected [OF h r, of "\<lambda>token. 5000" 5003]
    by simp
qed

text \<open>
  C4. In a refresh that publishes, the new snapshot is the fixed provider's entries,
  overridden by the batch adapter's, overridden by the single-pair adapter's. So a
  symbol that both adapters report carries the single-pair adapter's record in the new
  snapshot. Which of the two network calls settled first changes nothing in the
  outcome of the call.
\<close>

theorem merge_precedence:
  assumes "\<not> isUpdating st"
  shows "map_of (data (snd (updatePriceCache_with nf nd first
                             (Fulfilled cg) (Fulfilled (Some od)) st)))
           = map_of (stablecoinEntries nf []) ++ map_of cg ++ map_of od
         \<and> (k \<in> set (Object_keys cg) \<and> map_of od k = Some v \<longrightarrow>
              map_of (data (snd (updatePriceCache_with nf nd first
                                  (Fulfilled cg) (Fulfilled (Some od)) st))) k
                = Some v)
         \<and> updatePriceCache_with nf nd BatchFirst p1 p2 st
             = updatePriceCache_with nf nd PairFirst p1 p2 st"
proof -
  have m: "map_of (data (snd (updatePriceCache_with nf nd first
                               (Fulfilled cg) (Fulfilled (Some od)) st)))
           = map_of (stablecoinEntries nf []) ++ map_of cg ++ map_of od"
    using assms by (simp add: updatePriceCache_with_fulfilled map_of_Object_assign)
  have "map_of od k = Some v \<Longrightarrow>
          (map_of (stablecoinEntries nf []) ++ map_of cg ++ map_of od) k = Some v"
    by (simp add: map_add_def)
  with m show ?thesis by (simp add: updatePriceCache_with_arrival)
qed

theorem merge_precedence_witness:
  "\<not> isUpdating example_cache
   \<and> ''ORBE'' \<in> set (Object_keys colliding_batch)
   \<and> map_of colliding_pair ''ORBE''
       = Some \<lparr>price = Fin (12 / 10000), change24h = Fin (- 6 / 5), source = ''dexscreener'',
               updatedAt = 5002\<rparr>
   \<and> map_of (data (snd (updatePriceCache_with (\<lambda>token. 5000) 5003 BatchFirst
                          (Fulfilled colliding_batch) (Fulfilled (Some colliding_pair))
                          example_cache)))
         ''ORBE''
       = Some \<lparr>price = Fin (12 / 10000), change24h = Fin (- 6 / 5), source = ''dexscreener'',
               updatedAt = 5002\<rparr>
   \<and> map_of (data (snd (updatePriceCache_with (\<lambda>token. 5000) 5003 PairFirst
                          (Fulfilled colliding_batch) (Fulfilled (Some colliding_pair))
                          example_cache)))
         ''ORBE''
       = Some \<lparr>price = Fin (12 / 10000), change24h = Fin (- 6 / 5), source = ''dexscreener'',
               updatedAt = 5002\<rparr>"
proof -
  have h: "\<not> isUpdating example_cache" by (simp add: example_cache_def)
  have c: "''ORBE'' \<in> set (Object_keys colliding_batch)"
    by (simp add: Object_keys_def colliding_batch_def)
  have p: "map_of colliding_pair ''ORBE''
       = Some \<lparr>price = Fin (12 / 10000), change24h = Fin (- 6 / 5), source = ''dexscreener'',
               updatedAt = 5002\<rparr>"
    by (simp add: colliding_pair_def)
  show ?thesis
    using h c p
      merge_precedence [OF h, of "\<lambda>token. 5000" 5003 BatchFirst colliding_batch colliding_pair
        "''ORBE''" "\<lparr>price = Fin (12 / 10000), change24h = Fin (- 6 / 5),
                     source = ''dexscreener'', updatedAt = 5002\<rparr>"]
      merge_precedence [OF h, of "\<lambda>token. 5000" 5003 PairFirst colliding_batch colliding_pair
        "''ORBE''" "\<lparr>price = Fin (12 / 10000), change24h = Fin (- 6 / 5),
                     source = ''dexscreener'', updatedAt = 5002\<rparr>"]
    by simp
qed

text \<open>
  C5. When both adapters come back empty (the batch adapter with the empty object, the
  single-pair adapter with \<open>null\<close>), a call that passes the guard returns normally,
  replaces the snapshot by exactly the four stablecoins USDT, USDC, BUSD and DAI, each
  with price 1, change 0 and source \<open>fixed\<close>, and sets \<open>lastUpdate\<close> to the clock
  reading taken when it publishes.
\<close>

theorem refresh_both_adapters_fail:
  assumes "\<not> isUpdating st"
    and "fetchCoinGeckoPrices (env_nowCoinGecko env) (env_coinGeckoHttp env) = []"
    and "fetchOrbePrice (env_nowOrbe env) (env_dexScreenerHttp env) = None"
  shows "updatePriceCache env st =
           (Returned,
            st\<lparr>data := [(''USDT'', \<lparr>price = Fin 1, change24h = Fin 0, source = ''fixed'',
                                    updatedAt = env_nowFixed env ''USDT''\<rparr>),
                        (''USDC'', \<lparr>price = Fin 1, change24h = Fin 0, source = ''fixed'',
                                    updatedAt = env_nowFixed env ''USDC''\<rparr>),
                        (''BUSD'', \<lparr>price = Fin 1, change24h = Fin 0, source = ''fixed'',
                                    updatedAt = env_nowFixed env ''BUSD''\<rparr>),
                        (''DAI'', \<lparr>price = Fin 1, change24h = Fin 0, source = ''fixed'',
                                   updatedAt = env_nowFixed env ''DAI''\<rparr>)],
               lastUpdate := Some (env_nowDone env)\<rparr>)"
  using assms
  by (simp add: updatePriceCache_def updatePriceCache_with_fulfilled Object_assign_Nil
      stablecoinEntries_Nil)

theorem refresh_both_adapters_fail_witness:
  "\<not> isUpdating example_cache
   \<and> fetchCoinGeckoPrices (env_nowCoinGecko failing_env) (env_coinGeckoHttp failing_env) = []
   \<and> fetchOrbePrice (env_nowOrbe failing_env) (env_dexScreenerHttp failing_env) = None
   \<and> Object_keys (data (snd (updatePriceCache failing_env example_cache)))
       = [''USDT'', ''USDC'', ''BUSD'', ''DAI'']
   \<and> lastUpdate (snd (updatePriceCache failing_env example_cache)) = Some 5003
   \<and> fst (updatePriceCache failing_env example_cache) = Returned"
proof -
  have h1: "\<not> isUpdating example_cache" by (simp add: example_cache_def)
  have h2: "fetchCoinGeckoPrices (env_nowCoinGecko failing_env) (env_coinGeckoHttp failing_env)
              = []"
    by (simp add: fetchCoinGeckoPrices_def failing_env_def)
  have h3: "fetchOrbePrice (env_nowOrbe failing_env) (env_dexScreenerHttp failing_env) = None"
    by (simp add: fetchOrbePrice_def failing_env_def response_ok_def)
  show ?thesis
    using h1 h2 h3 refresh_both_adapters_fail [OF h1 h2 h3]
    by (simp add: Object_keys_def failing_env_def)
qed

text \<open>
  C6. A call that passes the guard builds the new snapshot from this cycle's results
  alone. For every prior cache state, if the batch adapter returns the empty object and
  the single-pair adapter returns a result, the call returns normally and the new
  snapshot is the four stablecoins followed by \<open>ORBE\<close>: its keys are exactly USDT,
  USDC, BUSD, DAI and ORBE, and BTC, ETH, BNB and SOL are absent whatever the prior
  snapshot held.
\<close>

theorem refresh_no_carry_over:
  assumes "\<not> isUpdating st"
    and "fetchCoinGeckoPrices (env_nowCoinGecko env) (env_coinGeckoHttp env) = []"
    and "fetchOrbePrice (env_nowOrbe env) (env_dexScreenerHttp env) = Some od"
  shows "fst (updatePriceCache env st) = Returned
         \<and> data (snd (updatePriceCache env st)) = stablecoinEntries (env_nowFixed env) [] @ od
         \<and> Object_keys (data (snd (updatePriceCache env st)))
             = [''USDT'', ''USDC'', ''BUSD'', ''DAI'', ''ORBE'']
         \<and> map_of (data (snd (updatePriceCache env st))) ''BTC'' = None
         \<and> map_of (data (snd (updatePriceCache env st))) ''ETH'' = None
         \<and> map_of (data (snd (updatePriceCache env st))) ''BNB'' = None
         \<and> map_of (data (snd (updatePriceCache env st))) ''SOL'' = None"
proof -
  from assms(3) obtain p where od: "od = [(''ORBE'', p)]"
    using fetchOrbePrice_Some by blast
  have d: "data (snd (updatePriceCache env st)) = stablecoinEntries (env_nowFixed env) [] @ od"
    using assms by (simp add: updatePriceCache_def updatePriceCache_with_fulfilled
        Object_assign_Nil od assign_ORBE)
  have r: "fst (updatePriceCache env st) = Returned"
    using assms by (simp add: updatePriceCache_def updatePriceCache_with_fulfilled)
  show ?thesis
    using r d by (simp add: od stablecoinEntries_Nil Object_keys_def)
qed

theorem refresh_no_carry_over_witness:
  "\<not> isUpdating example_cache
   \<and> map_of (data example_cache) ''BTC'' \<noteq> None
   \<and> fetchCoinGeckoPrices (env_nowCoinGecko orbe_only_env) (env_coinGeckoHttp orbe_only_env)
       = []
   \<and> fetchOrbePrice (env_nowOrbe orbe_only_env) (env_dexScreenerHttp orbe_only_env)
       = Some [(''ORBE'', \<lparr>price = Fin (12 / 10000), change24h = Fin (- 6 / 5),
                           source = ''dexscreener'', updatedAt = 5002\<rparr>)]
   \<and> Object_keys (data (snd (updatePriceCache orbe_only_env example_cache)))
       = [''USDT'', ''USDC'', ''BUSD'', ''DAI'', ''ORBE'']
   \<and> map_of (data (snd (updatePriceCache orbe_only_env example_cache))) ''BTC'' = None"
proof -
  have h1: "\<not> isUpdating example_cache" by (simp add: example_cache_def)
  have h2: "fetchCoinGeckoPrices (env_nowCoinGecko orbe_only_env)
              (env_coinGeckoHttp orbe_only_env) = []"
    by (simp add: fetchCoinGeckoPrices_def orbe_only_env_def)
  have pf: "parseFloat ''0.0012'' = Fin (12 / 10000)"
    by (simp add: parseFloat_def unsigned_literal_def is_digit_def is_whitespace_def
        decimal_value_def digit_value_def scale10_def exponent_part_def)
  have h3: "fetchOrbePrice (env_nowOrbe orbe_only_env) (env_dexScreenerHttp orbe_only_env)
       = Some [(''ORBE'', \<lparr>price = Fin (12 / 10000), change24h = Fin (- 6 / 5),
                           source = ''dexscreener'', updatedAt = 5002\<rparr>)]"
    by (simp add: fetchOrbePrice_def orbe_only_env_def response_ok_def pf change_h24_def
        or_zero_def truthy_num_def)
  have b: "map_of (data example_cache) ''BTC'' \<noteq> None" by (simp add: example_cache_def)
  show ?thesis
    using h1 h2 h3 b refresh_no_carry_over [OF h1 h2 h3]
    by (simp add: stablecoinEntries_Nil Object_keys_def)
qed

section \<open>The invariant: properties\<close>

lemma cache_inv_begin: "cache_inv st \<Longrightarrow> cache_inv (fst (updatePriceCache_begin nf st))"
  by (simp add: cache_inv_def updatePriceCache_begin_def)

lemma cache_inv_resume:
  "cache_inv st \<Longrightarrow> cache_inv (snd (updatePriceCache_resume nd first p1 p2 newData st))"
  by (simp add: cache_inv_def updatePriceCache_resume_def Let_def split: sum.splits prod.splits)

lemma cache_inv_with:
  "cache_inv st \<Longrightarrow> cache_inv (snd (updatePriceCache_with nf nd first p1 p2 st))"
  using cache_inv_begin [of st nf] cache_inv_resume
  by (auto simp: updatePriceCache_with_def split: prod.splits option.splits)

lemma cache_inv_step: "cache_inv (cache s) \<Longrightarrow> cache_inv (cache (step e s))"
proof (cases e)
  case (Call nf)
  assume "cache_inv (cache s)"
  then have "cache_inv (fst (updatePriceCache_begin nf (cache s)))" by (rule cache_inv_begin)
  with Call show ?thesis by (auto split: prod.splits option.splits)
next
  case (Settle nd first p1 p2)
  assume "cache_inv (cache s)"
  then show ?thesis using Settle by (simp add: cache_inv_resume split: list.splits)
qed

lemma cache_inv_fold: "cache_inv (cache s) \<Longrightarrow> cache_inv (cache (fold step evs s))"
  by (induction evs arbitrary: s) (simp_all add: cache_inv_step)

lemma cache_inv_run: "cache_inv (cache (run evs))"
  unfolding run_def
  by (rule cache_inv_fold) (simp add: server_start_def priceCache_def cache_inv_def)

text \<open>
  C10. Whenever the snapshot has an entry, \<open>lastUpdate\<close> is not \<open>null\<close>: the invariant
  holds of the initial cache, every call of \<open>updatePriceCache\<close> preserves it, and it
  holds of the cache after every sequence of events of the server (the read handlers
  write nothing). So whenever \<open>getOne\<close> finds the token in such a cache, \<open>lastUpdate\<close> is
  a timestamp \<open>t\<close> and the reported \<open>cacheAge\<close> is \<open>now - t\<close>.
\<close>

theorem snapshot_implies_lastUpdate:
  "cache_inv priceCache
   \<and> (cache_inv st \<longrightarrow> cache_inv (snd (updatePriceCache env st)))
   \<and> cache_inv (cache (run evs))
   \<and> (map_of (data (cache (run evs))) (toUpperCase s) = Some p \<longrightarrow>
        (\<exists>t. lastUpdate (cache (run evs)) = Some t
             \<and> getOne s now (cache (run evs)) = Found (toUpperCase s) p (Some t) (now - t)))"
proof -
  have a: "cache_inv priceCache" by (simp add: cache_inv_def priceCache_def)
  have b: "cache_inv st \<Longrightarrow> cache_inv (snd (updatePriceCache env st))"
    by (simp add: updatePriceCache_def cache_inv_with)
  have c: "cache_inv (cache (run evs))" by (rule cache_inv_run)
  have d: "\<exists>t. lastUpdate (cache (run evs)) = Some t
             \<and> getOne s now (cache (run evs)) = Found (toUpperCase s) p (Some t) (now - t)"
    if f: "map_of (data (cache (run evs))) (toUpperCase s) = Some p"
  proof -
    from f have "data (cache (run evs)) \<noteq> []" by auto
    with c obtain t where t: "lastUpdate (cache (run evs)) = Some t"
      by (auto simp: cache_inv_def)
    with f show ?thesis by (simp add: getOne_def)
  qed
  from a b c d show ?thesis by blast
qed

theorem snapshot_implies_lastUpdate_witness:
  "cache_inv example_cache
   \<and> data (cache (run first_refresh)) \<noteq> []
   \<and> lastUpdate (cache (run first_refresh)) = Some 5003
   \<and> map_of (data (cache (run first_refresh))) (toUpperCase ''usdt'')
       = Some \<lparr>price = Fin 1, change24h = Fin 0, source = ''fixed'', updatedAt = 5000\<rparr>
   \<and> getOne ''usdt'' 6000 (cache (run first_refresh))
       = Found ''USDT'' \<lparr>price = Fin 1, change24h = Fin 0, source = ''fixed'', updatedAt = 5000\<rparr>
           (Some 5003) 997"
proof -
  have u: "toUpperCase ''usdt'' = ''USDT''" by code_simp
  have r: "cache (run first_refresh)
             = \<lparr>data = stablecoinEntries (\<lambda>token. 5000) [], lastUpdate = Some 5003,
                isUpdating = False\<rparr>"
    by (simp add: run_def first_refresh_def server_start_def priceCache_def
        updatePriceCache_begin_def updatePriceCache_resume_def Promise_all_def Object_assign_Nil)
  have e: "cache_inv example_cache" by (simp add: cache_inv_def example_cache_def)
  have m: "map_of (data (cache (run first_refresh))) (toUpperCase ''usdt'')
       = Some \<lparr>price = Fin 1, change24h = Fin 0, source = ''fixed'', updatedAt = 5000\<rparr>"
    by (simp add: r u stablecoinEntries_Nil)
  show ?thesis
    using e m
      snapshot_implies_lastUpdate [of example_cache orbe_only_env first_refresh "''usdt''"
        "\<lparr>price = Fin 1, change24h = Fin 0, source = ''fixed'', updatedAt = 5000\<rparr>" 6000]
    by (simp add: r u stablecoinEntries_Nil)
qed

section \<open>Query interface: properties\<close>

text \<open>
  C7. The single-symbol lookup is case-insensitive: for every request parameter \<open>s\<close>,
  every clock reading and every cache state, \<open>getOne s\<close> and \<open>getOne (toUpperCase s)\<close>
  give the same response; in particular \<open>getOne ''btc''\<close> equals \<open>getOne ''BTC''\<close>.
\<close>

theorem getOne_case_insensitive:
  "getOne (toUpperCase s) now st = getOne s now st
   \<and> getOne ''btc'' now st = getOne ''BTC'' now st"
proof
  show "getOne (toUpperCase s) now st = getOne s now st"
    by (simp add: getOne_def toUpperCase_idem)
  have "toUpperCase ''btc'' = toUpperCase ''BTC''" by code_simp
  then show "getOne ''btc'' now st = getOne ''BTC'' now st"
    by (simp add: getOne_def)
qed

text \<open>
  C8. For every symbol whose upper-case form is not a key of the current snapshot,
  \<open>getOne\<close> answers with the structured not-found response, status 404 and never a
  server error, and its \<open>availableTokens\<close> field is \<open>Object.keys\<close> of the snapshot:
  exactly the snapshot's key set.
\<close>

theorem getOne_not_found:
  assumes "toUpperCase s \<notin> set (Object_keys (data st))"
  shows "getOne s now st =
           NotFound (''Token '' @ toUpperCase s @ '' not found'') (Object_keys (data st))
         \<and> status_code (getOne s now st) = 404
         \<and> availableTokens (getOne s now st) = Object_keys (data st)
         \<and> set (availableTokens (getOne s now st)) = dom (map_of (data st))"
proof -
  from assms have "map_of (data st) (toUpperCase s) = None"
    by (simp add: Object_keys_def map_of_eq_None_iff)
  then have "getOne s now st =
           NotFound (''Token '' @ toUpperCase s @ '' not found'') (Object_keys (data st))"
    by (simp add: getOne_def)
  then show ?thesis
    by (simp add: status_code_def Object_keys_def dom_map_of_conv_image_fst)
qed

theorem getOne_not_found_witness:
  "toUpperCase ''unknown'' \<notin> set (Object_keys (data example_cache))
   \<and> getOne ''unknown'' 2000 example_cache
       = NotFound ''Token UNKNOWN not found'' [''USDT'', ''BTC'']
   \<and> status_code (getOne ''unknown'' 2000 example_cache) = 404"
proof -
  have u: "toUpperCase ''unknown'' = ''UNKNOWN''" by code_simp
  have h: "toUpperCase ''unknown'' \<notin> set (Object_keys (data example_cache))"
    by (simp add: u Object_keys_def example_cache_def)
  show ?thesis
    using h getOne_not_found [OF h, of 2000]
    by (simp add: u Object_keys_def example_cache_def status_code_def)
qed

text \<open>
  The time \<open>lastUpdate\<close> of a cache that the server reaches is a reading of the clock
  taken at a \<open>Settle\<close> event, so it is never the timestamp 0.
\<close>

lemma lastUpdate_resume:
  "lastUpdate st \<noteq> Some 0 \<Longrightarrow> 0 < nd \<Longrightarrow>
   lastUpdate (snd (updatePriceCache_resume nd first p1 p2 newData st)) \<noteq> Some 0"
  by (simp add: updatePriceCache_resume_def Let_def split: sum.splits prod.splits)

lemma lastUpdate_step:
  "lastUpdate (cache s) \<noteq> Some 0 \<Longrightarrow> clock_after_epoch e \<Longrightarrow>
   lastUpdate (cache (step e s)) \<noteq> Some 0"
proof (cases e)
  case (Call nf)
  assume "lastUpdate (cache s) \<noteq> Some 0"
  with Call show ?thesis
    by (simp add: updatePriceCache_begin_def)
next
  case (Settle nd first p1 p2)
  assume "lastUpdate (cache s) \<noteq> Some 0" and "clock_after_epoch e"
  with Settle show ?thesis
    by (simp add: lastUpdate_resume split: list.splits)
qed

lemma lastUpdate_fold:
  "lastUpdate (cache s) \<noteq> Some 0 \<Longrightarrow> list_all clock_after_epoch evs \<Longrightarrow>
   lastUpdate (cache (fold step evs s)) \<noteq> Some 0"
  by (induction evs arbitrary: s) (simp_all add: lastUpdate_step)

lemma lastUpdate_run:
  "list_all clock_after_epoch evs \<Longrightarrow> lastUpdate (cache (run evs)) \<noteq> Some 0"
  unfolding run_def
  by (rule lastUpdate_fold) (simp_all add: server_start_def priceCache_def)

lemma getAll_cacheAge_state:
  "lastUpdate st \<noteq> Some 0 \<Longrightarrow>
   meta_cacheAge (resp_meta (getAll now st)) =
     (case lastUpdate st of None \<Rightarrow> None | Some t \<Rightarrow> Some (now - t))"
  by (simp add: getAll_def split: option.splits)

text \<open>
  C9. For every cache state that the server reaches, \<open>getAll\<close> reports \<open>cacheAge\<close>
  equal to \<open>now - lastUpdate\<close>, with \<open>now\<close> the clock reading of this call, and
  reports no \<open>cacheAge\<close> when no refresh has ever completed and \<open>lastUpdate\<close> is absent,
  as in the initial cache. The same holds of any cache state whose \<open>lastUpdate\<close> is not
  the timestamp 0.
\<close>

theorem getAll_cacheAge:
  assumes "list_all clock_after_epoch evs"
  shows "meta_cacheAge (resp_meta (getAll now (cache (run evs)))) =
           (case lastUpdate (cache (run evs)) of None \<Rightarrow> None | Some t \<Rightarrow> Some (now - t))
         \<and> meta_cacheAge (resp_meta (getAll now priceCache)) = None
         \<and> (lastUpdate st \<noteq> Some 0 \<longrightarrow>
              meta_cacheAge (resp_meta (getAll now st)) =
                (case lastUpdate st of None \<Rightarrow> None | Some t \<Rightarrow> Some (now - t)))"
proof -
  from assms have "lastUpdate (cache (run evs)) \<noteq> Some 0"
    by (rule lastUpdate_run)
  then have "meta_cacheAge (resp_meta (getAll now (cache (run evs)))) =
           (case lastUpdate (cache (run evs)) of None \<Rightarrow> None | Some t \<Rightarrow> Some (now - t))"
    by (rule getAll_cacheAge_state)
  moreover have "meta_cacheAge (resp_meta (getAll now priceCache)) = None"
    by (simp add: getAll_def priceCache_def)
  ultimately show ?thesis
    by (simp add: getAll_cacheAge_state)
qed

theorem getAll_cacheAge_witness:
  "list_all clock_after_epoch first_refresh
   \<and> lastUpdate (cache (run first_refresh)) = Some 5003
   \<and> meta_cacheAge (resp_meta (getAll 6000 (cache (run first_refresh)))) = Some 997
   \<and> meta_cacheAge (resp_meta (getAll 6000 priceCache)) = None
   \<and> lastUpdate example_cache \<noteq> Some 0
   \<and> meta_cacheAge (resp_meta (getAll 2000 example_cache)) = Some 998"
proof -
  have h: "list_all clock_after_epoch first_refresh"
    by (simp add: first_refresh_def)
  have r: "lastUpdate (cache (run first_refresh)) = Some 5003"
    by (simp add: run_def first_refresh_def server_start_def priceCache_def
        updatePriceCache_begin_def updatePriceCache_resume_def Promise_all_def)
  have e: "lastUpdate example_cache = Some 1002" by (simp add: example_cache_def)
  show ?thesis
    using h r e getAll_cacheAge [OF h, of 6000 example_cache]
      getAll_cacheAge [OF h, of 2000 example_cache]
    by simp
qed

end
